theory Spec2Isabelle
  imports Main "HOL-Library.AList" "HOL-Library.Char_ord" "HOL-Library.List_Lexorder"
begin

section \<open>Warehouse side: the readiness task of 03\_streams\_and\_tasks.sql\<close>

text \<open>
  The tables RAW.UNIT\_ASSIGNMENTS, RAW.PERSONNEL and RAW.UNITS are lists of rows (the
  warehouse enforces neither primary nor foreign keys, so a list may repeat an identifier).
  Only the columns that the two tasks read or write are kept. A timestamp is a number of
  time units since an epoch, and \<open>CURRENT_TIMESTAMP()\<close> is the parameter \<open>now\<close>. An ARRAY
  column is the list of its string elements; a NULL array flattens to no rows, as the empty
  list does. The VARIANT column \<open>cert_expirations\<close> is the list of its key/value pairs, the
  value already cast to a timestamp. The status columns hold strings, as the dashboard's
  interfaces type them.
\<close>

type_synonym timestamp = int

record unit_assignment =
  ua_unit_id :: string
  ua_personnel_id :: string
  shift_start :: timestamp
  shift_end :: timestamp
  assignment_status :: string

record personnel =
  personnel_id :: string
  availability_status :: string
  certifications :: "string list"
  cert_expirations :: "(string \<times> timestamp) list"
  updated_at :: timestamp

record unit_row =
  unit_id :: string
  minimum_staff :: int
  required_certifications :: "string list"

text \<open>A row of the CTE \<open>current_assignments\<close> (its SELECT DISTINCT column list).\<close>

record current_assignment =
  ca_unit_id :: string
  ca_assignment_status :: string
  ca_shift_start :: timestamp
  ca_shift_end :: timestamp
  ca_personnel_id :: string
  ca_availability_status :: string
  ca_certifications :: "string list"
  ca_cert_expirations :: "(string \<times> timestamp) list"
  ca_minimum_staff :: int
  ca_required_certifications :: "string list"

text \<open>A row of the CTE \<open>unit_readiness\<close>.\<close>

record unit_readiness_row =
  ur_unit_id :: string
  ur_minimum_staff :: int
  ur_current_staff :: int
  ur_available_staff :: int
  ur_missing_certs :: "string list"

text \<open>A row of the MERGE source, as written into ANALYTICS.UNIT\_READINESS\_AGGREGATES.\<close>

record readiness_aggregate =
  agg_unit_id :: string
  agg_minimum_staff :: int
  current_staff :: int
  available_staff :: int
  readiness_score :: int
  missing_certifications :: "string list"
  understaffed_flag :: bool

text \<open>
  The WHERE clause of \<open>current_assignments\<close>:
  \<^verbatim>\<open>ua.assignment_status = 'ON_SHIFT'
    AND CURRENT_TIMESTAMP() BETWEEN ua.shift_start AND ua.shift_end\<close>
  BETWEEN includes both of its bounds.
\<close>

definition on_shift_now :: "timestamp \<Rightarrow> unit_assignment \<Rightarrow> bool" where
  "on_shift_now now ua \<longleftrightarrow>
     assignment_status ua = ''ON_SHIFT'' \<and> shift_start ua \<le> now \<and> now \<le> shift_end ua"

definition ca_row :: "unit_assignment \<Rightarrow> personnel \<Rightarrow> unit_row \<Rightarrow> current_assignment" where
  "ca_row ua p u =
     \<lparr>ca_unit_id = ua_unit_id ua,
      ca_assignment_status = assignment_status ua,
      ca_shift_start = shift_start ua,
      ca_shift_end = shift_end ua,
      ca_personnel_id = personnel_id p,
      ca_availability_status = availability_status p,
      ca_certifications = certifications p,
      ca_cert_expirations = cert_expirations p,
      ca_minimum_staff = minimum_staff u,
      ca_required_certifications = required_certifications u\<rparr>"

text \<open>
  \<^verbatim>\<open>FROM RAW.UNIT_ASSIGNMENTS ua
  JOIN RAW.PERSONNEL p ON ua.personnel_id = p.personnel_id
  JOIN RAW.UNITS u ON ua.unit_id = u.unit_id\<close>
\<close>

definition current_assignments ::
  "timestamp \<Rightarrow> unit_assignment list \<Rightarrow> personnel list \<Rightarrow> unit_row list \<Rightarrow> current_assignment list"
where
  "current_assignments now uas ps us =
     remdups
       (concat (map (\<lambda>ua.
          concat (map (\<lambda>p.
            concat (map (\<lambda>u.
              if ua_personnel_id ua = personnel_id p \<and> ua_unit_id ua = unit_id u
                 \<and> on_shift_now now ua
              then [ca_row ua p u] else []) us)) ps)) uas))"

text \<open>
  The derived table \<open>missing_cert\<close>: one row (unit, person, cert) for every required
  certification of the row's unit that is not an element of that person's
  \<open>certifications\<close> array.
\<close>

definition missing_cert :: "current_assignment list \<Rightarrow> (string \<times> string \<times> string) list" where
  "missing_cert cas =
     remdups
       (concat (map (\<lambda>ca2.
          map (\<lambda>cert. (ca_unit_id ca2, ca_personnel_id ca2, cert))
            (filter (\<lambda>cert. cert \<notin> set (ca_certifications ca2))
               (ca_required_certifications ca2))) cas))"

text \<open>
  \<open>current_assignments ca LEFT JOIN missing_cert ON\<close> unit and person: a row without a
  partner is kept once, with a NULL cert.
\<close>

definition left_join_missing ::
  "current_assignment list \<Rightarrow> (string \<times> string \<times> string) list
     \<Rightarrow> (current_assignment \<times> string option) list"
where
  "left_join_missing cas mcs =
     concat (map (\<lambda>ca.
       (case filter (\<lambda>mc. ca_unit_id ca = fst mc \<and> ca_personnel_id ca = fst (snd mc)) mcs of
          [] \<Rightarrow> [(ca, None)]
        | ms \<Rightarrow> map (\<lambda>mc. (ca, Some (snd (snd mc)))) ms)) cas)"

text \<open>MAX over the rows of a group, which is never empty.\<close>

fun sql_max :: "int \<Rightarrow> int list \<Rightarrow> int" where
  "sql_max m [] = m"
| "sql_max m (x # xs) = sql_max (max m x) xs"

text \<open>The aggregates of one group of the GROUP BY \<open>ca.unit_id\<close>, the group being \<open>r # rs\<close>.\<close>

definition group_aggregates ::
  "string \<Rightarrow> (current_assignment \<times> string option) \<Rightarrow> (current_assignment \<times> string option) list
     \<Rightarrow> unit_readiness_row"
where
  "group_aggregates uid r rs =
     \<lparr>ur_unit_id = uid,
      ur_minimum_staff =
        sql_max (ca_minimum_staff (fst r)) (map (\<lambda>x. ca_minimum_staff (fst x)) rs),
      ur_current_staff =
        int (length (remdups (map (\<lambda>x. ca_personnel_id (fst x)) (r # rs)))),
      ur_available_staff =
        int (length (remdups (map (\<lambda>x. ca_personnel_id (fst x))
          (filter (\<lambda>x. ca_availability_status (fst x) = ''AVAILABLE'') (r # rs))))),
      ur_missing_certs =
        sort (remdups (concat (map (\<lambda>x. case snd x of None \<Rightarrow> [] | Some c \<Rightarrow> [c]) (r # rs))))\<rparr>"

definition aggregate_group ::
  "string \<Rightarrow> (current_assignment \<times> string option) list \<Rightarrow> unit_readiness_row list"
where
  "aggregate_group uid rows = (case rows of [] \<Rightarrow> [] | r # rs \<Rightarrow> [group_aggregates uid r rs])"

text \<open>The rows of the joined table that fall into the group of \<open>uid\<close>.\<close>

definition group_rows ::
  "current_assignment list \<Rightarrow> string \<Rightarrow> (current_assignment \<times> string option) list"
where
  "group_rows cas uid =
     filter (\<lambda>x. ca_unit_id (fst x) = uid) (left_join_missing cas (missing_cert cas))"

definition unit_readiness :: "current_assignment list \<Rightarrow> unit_readiness_row list" where
  "unit_readiness cas =
     concat (map (\<lambda>uid. aggregate_group uid (group_rows cas uid)) (remdups (map ca_unit_id cas)))"

text \<open>
  The CASE expression of the outer SELECT. \<open>minimum_staff * 0.8\<close> is exact decimal
  arithmetic, so \<open>current_staff >= minimum_staff * 0.8\<close> is the integer comparison
  \<open>current_staff * 10 \<ge> minimum_staff * 8\<close>. The array is never NULL here, so the test
  \<open>missing_certs IS NULL OR ARRAY_SIZE(missing_certs) = 0\<close> is emptiness of the list.
\<close>

definition score_case :: "int \<Rightarrow> int \<Rightarrow> int \<Rightarrow> string list \<Rightarrow> int" where
  "score_case cur avail minimum missing =
     (if cur \<ge> minimum \<and> avail \<ge> minimum \<and> length missing = 0 then 100
      else if cur \<ge> minimum \<and> avail \<ge> minimum then 85
      else if cur \<ge> minimum then 70
      else if cur * 10 \<ge> minimum * 8 then 50
      else 30)"

definition select_row :: "unit_readiness_row \<Rightarrow> readiness_aggregate" where
  "select_row ur =
     \<lparr>agg_unit_id = ur_unit_id ur,
      agg_minimum_staff = ur_minimum_staff ur,
      current_staff = ur_current_staff ur,
      available_staff = ur_available_staff ur,
      readiness_score =
        score_case (ur_current_staff ur) (ur_available_staff ur) (ur_minimum_staff ur)
          (ur_missing_certs ur),
      missing_certifications = ur_missing_certs ur,
      understaffed_flag = (if ur_current_staff ur < ur_minimum_staff ur then True else False)\<rparr>"

text \<open>The USING subquery of \<open>process_personnel_readiness_task\<close>.\<close>

definition readiness_source ::
  "timestamp \<Rightarrow> unit_assignment list \<Rightarrow> personnel list \<Rightarrow> unit_row list \<Rightarrow> readiness_aggregate list"
where
  "readiness_source now uas ps us =
     map select_row (unit_readiness (current_assignments now uas ps us))"


subsection \<open>The certification-expiration task\<close>

text \<open>
  \<^verbatim>\<open>UPDATE RAW.PERSONNEL p
  SET availability_status = 'IN_TRAINING', updated_at = CURRENT_TIMESTAMP()
  WHERE EXISTS (SELECT 1 FROM LATERAL FLATTEN(INPUT => p.cert_expirations) cert_exp
                WHERE cert_exp.value::STRING::TIMESTAMP_NTZ < CURRENT_TIMESTAMP()
                  AND p.availability_status != 'IN_TRAINING')\<close>
\<close>

definition expiration_where :: "timestamp \<Rightarrow> personnel \<Rightarrow> bool" where
  "expiration_where now p \<longleftrightarrow>
     (\<exists>cert_exp \<in> set (cert_expirations p).
        snd cert_exp < now \<and> availability_status p \<noteq> ''IN_TRAINING'')"

definition process_certification_expirations :: "timestamp \<Rightarrow> personnel list \<Rightarrow> personnel list" where
  "process_certification_expirations now ps =
     map (\<lambda>p. if expiration_where now p
               then p\<lparr>availability_status := ''IN_TRAINING'', updated_at := now\<rparr>
               else p) ps"

section \<open>Dashboard side: app/readiness/page.tsx\<close>

subsection \<open>The message handler\<close>


datatype severity = Error | Warning | Info | Success








subsection \<open>The WebSocket effect\<close>

text \<open>
  Every socket the page has created lives in \<open>sockets\<close> and is named by its position there.
  \<open>wsConnectionsRef.current\<close> is a \<open>Map\<close> from unit identifier to socket, kept as an
  association list in insertion order; \<open>wsConnected\<close> is the set shown as ``units live''.
\<close>

datatype ready_state = CONNECTING | OPEN | CLOSING | CLOSED

record web_socket =
  ws_unit_id :: string
  readyState :: ready_state

record connections =
  sockets :: "web_socket list"
  wsConnections :: "(string \<times> nat) list"
  wsConnected :: "string set"

definition ready_state_of :: "web_socket list \<Rightarrow> nat \<Rightarrow> ready_state option" where
  "ready_state_of socks ws = (if ws < length socks then Some (readyState (socks ! ws)) else None)"

text \<open>The platform's \<open>close()\<close> moves a socket that is not yet closed to CLOSING.\<close>

definition ws_close :: "nat \<Rightarrow> web_socket list \<Rightarrow> web_socket list" where
  "ws_close ws socks =
     (if ws < length socks \<and> readyState (socks ! ws) \<noteq> CLOSED
      then socks[ws := (socks ! ws)\<lparr>readyState := CLOSING\<rparr>] else socks)"

text \<open>
  \<^verbatim>\<open>if (ws.readyState === WebSocket.OPEN || ws.readyState === WebSocket.CONNECTING) ws.close()\<close>
\<close>

definition close_if_live :: "nat \<Rightarrow> web_socket list \<Rightarrow> web_socket list" where
  "close_if_live ws socks =
     (if ready_state_of socks ws = Some OPEN \<or> ready_state_of socks ws = Some CONNECTING
      then ws_close ws socks else socks)"

text \<open>One step of the first \<open>forEach\<close>: ``Close connections for units that no longer exist''.\<close>

definition close_stale_entry :: "string list \<Rightarrow> string \<times> nat \<Rightarrow> connections \<Rightarrow> connections" where
  "close_stale_entry currentUnitIds entry st =
     (if fst entry \<notin> set currentUnitIds
      then st\<lparr>sockets := close_if_live (snd entry) (sockets st),
              wsConnections := AList.delete (fst entry) (wsConnections st),
              wsConnected := wsConnected st - {fst entry}\<rparr>
      else st)"

definition close_stale :: "string list \<Rightarrow> connections \<Rightarrow> connections" where
  "close_stale currentUnitIds st = fold (close_stale_entry currentUnitIds) (wsConnections st) st"

text \<open>
  One step of the second \<open>forEach\<close>: return when the registry holds an OPEN socket for the
  unit, otherwise create a socket (CONNECTING) and store it under the unit's identifier.
\<close>

definition connect_unit :: "string \<Rightarrow> connections \<Rightarrow> connections" where
  "connect_unit uid st =
     (if (case map_of (wsConnections st) uid of
            Some existingWs \<Rightarrow> ready_state_of (sockets st) existingWs = Some OPEN
          | None \<Rightarrow> False)
      then st
      else st\<lparr>sockets := sockets st @ [\<lparr>ws_unit_id = uid, readyState = CONNECTING\<rparr>],
              wsConnections := AList.update uid (length (sockets st)) (wsConnections st)\<rparr>)"

text \<open>The body of the effect, given the identifiers of \<open>units\<close> in order.\<close>

definition connect_effect :: "string list \<Rightarrow> connections \<Rightarrow> connections" where
  "connect_effect unit_ids st =
     (if length unit_ids = 0 then st
      else fold connect_unit unit_ids (close_stale unit_ids st))"

text \<open>The handlers that the effect installs on the socket of unit \<open>uid\<close>.\<close>

definition on_open :: "string \<Rightarrow> connections \<Rightarrow> connections" where
  "on_open uid st = st\<lparr>wsConnected := insert uid (wsConnected st)\<rparr>"

definition on_error :: "string \<Rightarrow> connections \<Rightarrow> connections" where
  "on_error uid st = st\<lparr>wsConnected := wsConnected st - {uid}\<rparr>"

definition on_close :: "string \<Rightarrow> connections \<Rightarrow> connections" where
  "on_close uid st =
     st\<lparr>wsConnected := wsConnected st - {uid},
        wsConnections := AList.delete uid (wsConnections st)\<rparr>"

text \<open>The effect's cleanup function.\<close>

definition effect_cleanup :: "connections \<Rightarrow> connections" where
  "effect_cleanup st =
     st\<lparr>sockets := fold close_if_live (map snd (wsConnections st)) (sockets st),
        wsConnections := []\<rparr>"

text \<open>The sockets created for a unit that are OPEN or CONNECTING.\<close>

definition live_channels :: "string \<Rightarrow> connections \<Rightarrow> nat list" where
  "live_channels uid st =
     filter (\<lambda>ws. ws_unit_id (sockets st ! ws) = uid
                 \<and> (readyState (sockets st ! ws) = OPEN \<or> readyState (sockets st ! ws) = CONNECTING))
       [0 ..< length (sockets st)]"

section \<open>Sample data\<close>

definition medic_a :: personnel where
  "medic_a = \<lparr>personnel_id = ''P1'', availability_status = ''AVAILABLE'',
     certifications = [''EMT-P''], cert_expirations = [], updated_at = 0\<rparr>"

definition medic_b :: personnel where
  "medic_b = \<lparr>personnel_id = ''P2'', availability_status = ''IN_TRAINING'',
     certifications = [''EMT-P''], cert_expirations = [(''EMT-P'', 50)], updated_at = 60\<rparr>"

definition recruit :: personnel where
  "recruit = \<lparr>personnel_id = ''P3'', availability_status = ''AVAILABLE'',
     certifications = [], cert_expirations = [], updated_at = 0\<rparr>"

definition paramedic :: personnel where
  "paramedic = \<lparr>personnel_id = ''P4'', availability_status = ''AVAILABLE'',
     certifications = [''ACLS'', ''EMT-P''], cert_expirations = [(''ACLS'', 500)], updated_at = 0\<rparr>"

definition roster :: "personnel list" where
  "roster = [medic_a, medic_b, recruit, paramedic]"

definition fleet :: "unit_row list" where
  "fleet =
     [\<lparr>unit_id = ''U1'', minimum_staff = 1, required_certifications = [''EMT-P'']\<rparr>,
      \<lparr>unit_id = ''U2'', minimum_staff = 3, required_certifications = [''ACLS'', ''EMT-P'']\<rparr>]"

definition shift :: "string \<Rightarrow> string \<Rightarrow> timestamp \<Rightarrow> timestamp \<Rightarrow> unit_assignment" where
  "shift uid pid start end =
     \<lparr>ua_unit_id = uid, ua_personnel_id = pid, shift_start = start, shift_end = end,
      assignment_status = ''ON_SHIFT''\<rparr>"



definition no_connections :: connections where
  "no_connections = \<lparr>sockets = [], wsConnections = [], wsConnected = {}\<rparr>"

definition two_units_live :: connections where
  "two_units_live =
     \<lparr>sockets = [\<lparr>ws_unit_id = ''U1'', readyState = OPEN\<rparr>, \<lparr>ws_unit_id = ''U2'', readyState = OPEN\<rparr>],
      wsConnections = [(''U1'', 0), (''U2'', 1)],
      wsConnected = {''U1'', ''U2''}\<rparr>"

text \<open>
  The connection of U1 has failed: the platform has set its socket to CLOSED and delivers the
  error event and then the close event.
\<close>

definition u1_failed :: connections where
  "u1_failed =
     \<lparr>sockets = [\<lparr>ws_unit_id = ''U1'', readyState = CLOSED\<rparr>, \<lparr>ws_unit_id = ''U2'', readyState = OPEN\<rparr>],
      wsConnections = [(''U1'', 0), (''U2'', 1)],
      wsConnected = {''U1'', ''U2''}\<rparr>"

section \<open>The rows of the readiness source\<close>

lemma set_current_assignments:
  "set (current_assignments now uas ps us) =
     {ca_row ua p u |ua p u. ua \<in> set uas \<and> p \<in> set ps \<and> u \<in> set us
        \<and> ua_personnel_id ua = personnel_id p \<and> ua_unit_id ua = unit_id u \<and> on_shift_now now ua}"
  unfolding current_assignments_def by (auto split: if_splits)

lemma set_missing_cert:
  "set (missing_cert cas) =
     {(ca_unit_id ca, ca_personnel_id ca, c) |ca c. ca \<in> set cas
        \<and> c \<in> set (ca_required_certifications ca) \<and> c \<notin> set (ca_certifications ca)}"
  unfolding missing_cert_def by auto

lemma left_join_fst: "fst ` set (left_join_missing cas mcs) = set cas"
  unfolding left_join_missing_def
  by (auto split: list.splits simp: image_iff)

lemma left_join_Some:
  "(ca, Some c) \<in> set (left_join_missing cas mcs) \<longleftrightarrow>
     ca \<in> set cas \<and> (ca_unit_id ca, ca_personnel_id ca, c) \<in> set mcs"
proof -
  have *: "\<And>ca'::current_assignment. (ca, Some c) \<in> set (case filter (\<lambda>mc. ca_unit_id ca' = fst mc \<and> ca_personnel_id ca' = fst (snd mc)) mcs of
          [] \<Rightarrow> [(ca', None)]
        | ms \<Rightarrow> map (\<lambda>mc. (ca', Some (snd (snd mc)))) ms) \<longleftrightarrow> ca' = ca \<and> (ca_unit_id ca, ca_personnel_id ca, c) \<in> set mcs"
  proof -
    fix ca' :: current_assignment
    let ?f = "filter (\<lambda>mc. ca_unit_id ca' = fst mc \<and> ca_personnel_id ca' = fst (snd mc)) mcs"
    have "(ca, Some c) \<in> set (case ?f of [] \<Rightarrow> [(ca', None)] | ms \<Rightarrow> map (\<lambda>mc. (ca', Some (snd (snd mc)))) ms)
       \<longleftrightarrow> (ca, Some c) \<in> set (map (\<lambda>mc. (ca', Some (snd (snd mc)))) ?f)"
      by (cases ?f) auto
    also have "\<dots> \<longleftrightarrow> ca' = ca \<and> (ca_unit_id ca, ca_personnel_id ca, c) \<in> set mcs"
      by (auto simp: image_iff) 
    finally show "?thesis ca'" .
  qed
  show ?thesis unfolding left_join_missing_def 
    by (simp only: set_concat set_map UN_iff bex_simps image_iff *) auto
qed


lemma unit_readiness_mem:
  assumes "r \<in> set (unit_readiness cas)"
  obtains uid x xs where "ur_unit_id r = uid" and "group_rows cas uid = x # xs"
    and "r = group_aggregates uid x xs"
proof -
  from assms obtain uid where r: "r \<in> set (aggregate_group uid (group_rows cas uid))"
    unfolding unit_readiness_def by auto
  show ?thesis
  proof (cases "group_rows cas uid")
    case Nil
    with r show ?thesis by (simp add: aggregate_group_def)
  next
    case (Cons x xs)
    with r have eq: "r = group_aggregates uid x xs" by (simp add: aggregate_group_def)
    then have "ur_unit_id r = uid" by (simp add: group_aggregates_def)
    with Cons eq that show ?thesis by blast
  qed
qed

lemma fst_group_rows: "fst ` set (group_rows cas uid) = {ca \<in> set cas. ca_unit_id ca = uid}"
proof -
  have "fst ` set (group_rows cas uid) = {ca \<in> fst ` set (left_join_missing cas (missing_cert cas)). ca_unit_id ca = uid}"
    unfolding group_rows_def by force
  then show ?thesis by (simp add: left_join_fst)
qed

lemma group_rows_Some:
  "(ca, Some c) \<in> set (group_rows cas uid) \<longleftrightarrow>
     ca \<in> set cas \<and> ca_unit_id ca = uid \<and>
     (\<exists>ca2 \<in> set cas. ca_unit_id ca2 = uid \<and> ca_personnel_id ca2 = ca_personnel_id ca
        \<and> c \<in> set (ca_required_certifications ca2) \<and> c \<notin> set (ca_certifications ca2))"
  (is "?L \<longleftrightarrow> ?R")
proof -
  have "?L \<longleftrightarrow>
      ca_unit_id ca = uid \<and> ca \<in> set cas \<and> (ca_unit_id ca, ca_personnel_id ca, c) \<in> set (missing_cert cas)"
    unfolding group_rows_def by (auto simp: left_join_Some)
  also have "(ca_unit_id ca, ca_personnel_id ca, c) \<in> set (missing_cert cas) \<longleftrightarrow>
     (\<exists>ca2 \<in> set cas. ca_unit_id ca2 = ca_unit_id ca \<and> ca_personnel_id ca2 = ca_personnel_id ca
        \<and> c \<in> set (ca_required_certifications ca2) \<and> c \<notin> set (ca_certifications ca2))"
    unfolding set_missing_cert by (simp add: Bex_def) metis
  finally show ?thesis by metis
qed

lemma group_missing_set:
  "{c. \<exists>x \<in> set (group_rows cas uid). snd x = Some c} =
     {c. \<exists>ca \<in> set cas. ca_unit_id ca = uid
        \<and> c \<in> set (ca_required_certifications ca) \<and> c \<notin> set (ca_certifications ca)}"
  (is "?A = ?B")
proof (rule set_eqI)
  fix c
  show "c \<in> ?A \<longleftrightarrow> c \<in> ?B"
  proof
    assume "c \<in> ?A"
    then obtain x where x: "x \<in> set (group_rows cas uid)" and s: "snd x = Some c" by blast
    from s have "x = (fst x, Some c)" by (simp add: prod_eq_iff)
    with x have "(fst x, Some c) \<in> set (group_rows cas uid)" by simp
    then obtain ca2 where "ca2 \<in> set cas" "ca_unit_id ca2 = uid"
      "c \<in> set (ca_required_certifications ca2)" "c \<notin> set (ca_certifications ca2)"
      unfolding group_rows_Some by blast
    then show "c \<in> ?B" by blast
  next
    assume "c \<in> ?B"
    then obtain ca where ca: "ca \<in> set cas" "ca_unit_id ca = uid"
      "c \<in> set (ca_required_certifications ca)" "c \<notin> set (ca_certifications ca)" by blast
    then have "(ca, Some c) \<in> set (group_rows cas uid)"
      unfolding group_rows_Some by blast
    then have "\<exists>x \<in> set (group_rows cas uid). snd x = Some c" by force
    then show "c \<in> ?A" by simp
  qed
qed

lemma set_collect_Some:
  "set (concat (map (\<lambda>x. case snd x of None \<Rightarrow> [] | Some c \<Rightarrow> [c]) rows)) = {c. \<exists>x \<in> set rows. snd x = Some c}"
proof (induction rows)
  case Nil
  show ?case by simp
next
  case (Cons r rows)
  have "set (case snd r of None \<Rightarrow> [] | Some c \<Rightarrow> [c]) = {c. snd r = Some c}"
    by (cases "snd r") auto
  with Cons show ?case by auto
qed

lemma unit_readiness_missing:
  assumes "r \<in> set (unit_readiness cas)"
  shows "set (ur_missing_certs r) =
     {c. \<exists>ca \<in> set cas. ca_unit_id ca = ur_unit_id r
        \<and> c \<in> set (ca_required_certifications ca) \<and> c \<notin> set (ca_certifications ca)}"
    and "sorted (ur_missing_certs r)" and "distinct (ur_missing_certs r)"
proof -
  from assms obtain uid x xs where u: "ur_unit_id r = uid"
    and g: "group_rows cas uid = x # xs" and a: "r = group_aggregates uid x xs"
    by (rule unit_readiness_mem)
  have m: "ur_missing_certs r =
      sort (remdups (concat (map (\<lambda>x. case snd x of None \<Rightarrow> [] | Some c \<Rightarrow> [c]) (x # xs))))"
    unfolding a group_aggregates_def by (rule unit_readiness_row.select_convs)
  show "sorted (ur_missing_certs r)" "distinct (ur_missing_certs r)"
    unfolding m by simp_all
  have "set (ur_missing_certs r) = {c. \<exists>y \<in> set (group_rows cas uid). snd y = Some c}"
    unfolding m g by (simp only: set_sort set_remdups set_collect_Some)
  then show "set (ur_missing_certs r) =
     {c. \<exists>ca \<in> set cas. ca_unit_id ca = ur_unit_id r
        \<and> c \<in> set (ca_required_certifications ca) \<and> c \<notin> set (ca_certifications ca)}"
    unfolding u by (simp only: group_missing_set)
qed

lemma unit_readiness_current_staff:
  assumes "r \<in> set (unit_readiness cas)"
  shows "ur_current_staff r = int (card (ca_personnel_id ` {ca \<in> set cas. ca_unit_id ca = ur_unit_id r}))"
proof -
  from assms obtain uid x xs where u: "ur_unit_id r = uid"
    and g: "group_rows cas uid = x # xs" and a: "r = group_aggregates uid x xs"
    by (rule unit_readiness_mem)
  have "ur_current_staff r = int (length (remdups (map (\<lambda>x. ca_personnel_id (fst x)) (x # xs))))"
    unfolding a group_aggregates_def by (rule unit_readiness_row.select_convs)
  also have "\<dots> = int (card (set (map (\<lambda>x. ca_personnel_id (fst x)) (group_rows cas uid))))"
    unfolding g by (simp only: length_remdups_card_conv)
  also have "set (map (\<lambda>x. ca_personnel_id (fst x)) (group_rows cas uid)) =
      ca_personnel_id ` (fst ` set (group_rows cas uid))"
    by (simp only: set_map image_image)
  finally show ?thesis unfolding u by (simp only: fst_group_rows)
qed

lemma source_row:
  assumes "r \<in> set (readiness_source now uas ps us)"
  obtains ur where "ur \<in> set (unit_readiness (current_assignments now uas ps us))"
    and "r = select_row ur"
  using assms unfolding readiness_source_def by auto

lemma select_row_fields:
  "agg_unit_id (select_row ur) = ur_unit_id ur"
  "agg_minimum_staff (select_row ur) = ur_minimum_staff ur"
  "current_staff (select_row ur) = ur_current_staff ur"
  "available_staff (select_row ur) = ur_available_staff ur"
  "missing_certifications (select_row ur) = ur_missing_certs ur"
  by (simp_all add: select_row_def)

lemma ca_row_fields:
  "ca_unit_id (ca_row ua p u) = ua_unit_id ua"
  "ca_personnel_id (ca_row ua p u) = personnel_id p"
  "ca_certifications (ca_row ua p u) = certifications p"
  "ca_required_certifications (ca_row ua p u) = required_certifications u"
  by (simp_all add: ca_row_def)

lemma source_missing_set:
  assumes "r \<in> set (readiness_source now uas ps us)"
  shows "set (missing_certifications r) =
     {c. \<exists>ua \<in> set uas. \<exists>p \<in> set ps. \<exists>u \<in> set us.
           ua_unit_id ua = agg_unit_id r \<and> ua_personnel_id ua = personnel_id p
           \<and> ua_unit_id ua = unit_id u \<and> on_shift_now now ua
           \<and> c \<in> set (required_certifications u) \<and> c \<notin> set (certifications p)}"
  (is "?L = ?R")
proof -
  from assms obtain ur where ur: "ur \<in> set (unit_readiness (current_assignments now uas ps us))"
    and r: "r = select_row ur" by (rule source_row)
  let ?cas = "current_assignments now uas ps us"
  have L: "?L = {c. \<exists>ca \<in> set ?cas. ca_unit_id ca = agg_unit_id r
        \<and> c \<in> set (ca_required_certifications ca) \<and> c \<notin> set (ca_certifications ca)}"
    unfolding r select_row_fields by (rule unit_readiness_missing(1) [OF ur])
  show ?thesis
  proof (rule set_eqI)
    fix c
    show "c \<in> ?L \<longleftrightarrow> c \<in> ?R"
    proof
      assume "c \<in> ?L"
      then obtain ca where ca: "ca \<in> set ?cas" "ca_unit_id ca = agg_unit_id r"
        "c \<in> set (ca_required_certifications ca)" "c \<notin> set (ca_certifications ca)"
        unfolding L by blast
      from ca(1) obtain ua p u where j: "ca = ca_row ua p u" "ua \<in> set uas" "p \<in> set ps" "u \<in> set us"
        "ua_personnel_id ua = personnel_id p" "ua_unit_id ua = unit_id u" "on_shift_now now ua"
        unfolding set_current_assignments by blast
      from ca(2-4) have "ua_unit_id ua = agg_unit_id r" "c \<in> set (required_certifications u)"
        "c \<notin> set (certifications p)"
        unfolding j(1) ca_row_fields by simp_all
      with j(2-7) show "c \<in> ?R" by blast
    next
      assume "c \<in> ?R"
      then obtain ua p u where j: "ua \<in> set uas" "p \<in> set ps" "u \<in> set us"
        "ua_unit_id ua = agg_unit_id r" "ua_personnel_id ua = personnel_id p"
        "ua_unit_id ua = unit_id u" "on_shift_now now ua"
        "c \<in> set (required_certifications u)" "c \<notin> set (certifications p)"
        by blast
      then have "ca_row ua p u \<in> set ?cas" unfolding set_current_assignments by blast
      moreover from j have "ca_unit_id (ca_row ua p u) = agg_unit_id r"
        "c \<in> set (ca_required_certifications (ca_row ua p u))"
        "c \<notin> set (ca_certifications (ca_row ua p u))"
        unfolding ca_row_fields by simp_all
      ultimately show "c \<in> ?L" unfolding L by blast
    qed
  qed
qed

lemma source_missing_sorted:
  assumes "r \<in> set (readiness_source now uas ps us)"
  shows "sorted (missing_certifications r)" "distinct (missing_certifications r)"
proof -
  from assms obtain ur where ur: "ur \<in> set (unit_readiness (current_assignments now uas ps us))"
    and r: "r = select_row ur" by (rule source_row)
  show "sorted (missing_certifications r)" "distinct (missing_certifications r)"
    unfolding r select_row_fields
    by (rule unit_readiness_missing(2) [OF ur], rule unit_readiness_missing(3) [OF ur])
qed

lemma source_current_staff:
  assumes "r \<in> set (readiness_source now uas ps us)"
  shows "current_staff r = int (card
     {pid. \<exists>ua \<in> set uas. \<exists>p \<in> set ps. \<exists>u \<in> set us.
           ua_unit_id ua = agg_unit_id r \<and> ua_personnel_id ua = pid
           \<and> personnel_id p = pid \<and> unit_id u = ua_unit_id ua \<and> on_shift_now now ua})"
proof -
  from assms obtain ur where ur: "ur \<in> set (unit_readiness (current_assignments now uas ps us))"
    and r: "r = select_row ur" by (rule source_row)
  let ?cas = "current_assignments now uas ps us"
  have "ca_personnel_id ` {ca \<in> set ?cas. ca_unit_id ca = agg_unit_id r} =
     {pid. \<exists>ua \<in> set uas. \<exists>p \<in> set ps. \<exists>u \<in> set us.
           ua_unit_id ua = agg_unit_id r \<and> ua_personnel_id ua = pid
           \<and> personnel_id p = pid \<and> unit_id u = ua_unit_id ua \<and> on_shift_now now ua}"
    (is "?A = ?B")
  proof (rule set_eqI)
    fix pid
    show "pid \<in> ?A \<longleftrightarrow> pid \<in> ?B"
    proof
      assume "pid \<in> ?A"
      then obtain ca where ca: "ca \<in> set ?cas" "ca_unit_id ca = agg_unit_id r" "pid = ca_personnel_id ca"
        by blast
      from ca(1) obtain ua p u where j: "ca = ca_row ua p u" "ua \<in> set uas" "p \<in> set ps" "u \<in> set us"
        "ua_personnel_id ua = personnel_id p" "ua_unit_id ua = unit_id u" "on_shift_now now ua"
        unfolding set_current_assignments by blast
      from ca(2,3) have "ua_unit_id ua = agg_unit_id r" "pid = personnel_id p"
        unfolding j(1) ca_row_fields by simp_all
      with j(2-7) show "pid \<in> ?B" by force
    next
      assume "pid \<in> ?B"
      then obtain ua p u where j: "ua \<in> set uas" "p \<in> set ps" "u \<in> set us"
        "ua_unit_id ua = agg_unit_id r" "ua_personnel_id ua = pid"
        "personnel_id p = pid" "unit_id u = ua_unit_id ua" "on_shift_now now ua"
        by blast
      then have "ca_row ua p u \<in> set ?cas" unfolding set_current_assignments by force
      moreover from j have "ca_unit_id (ca_row ua p u) = agg_unit_id r"
        "ca_personnel_id (ca_row ua p u) = pid"
        unfolding ca_row_fields by simp_all
      ultimately show "pid \<in> ?A" by force
    qed
  qed
  then show ?thesis
    unfolding r select_row_fields unit_readiness_current_staff [OF ur] by simp
qed

lemma counted_set_eq:
  "{pid. \<exists>ua \<in> set uas. \<exists>p \<in> set ps. \<exists>u \<in> set us.
           ua_unit_id ua = uid \<and> ua_personnel_id ua = pid
           \<and> personnel_id p = pid \<and> unit_id u = ua_unit_id ua \<and> on_shift_now now ua} =
       {pid. \<exists>ua \<in> set uas.
          ua_unit_id ua = uid \<and> ua_personnel_id ua = pid
          \<and> assignment_status ua = ''ON_SHIFT'' \<and> shift_start ua \<le> now \<and> now \<le> shift_end ua
          \<and> pid \<in> personnel_id ` set ps \<and> ua_unit_id ua \<in> unit_id ` set us}"
  (is "?A = ?B")
proof (rule set_eqI)
  fix pid
  show "pid \<in> ?A \<longleftrightarrow> pid \<in> ?B"
  proof
    assume "pid \<in> ?A"
    then obtain ua p u where j: "ua \<in> set uas" "p \<in> set ps" "u \<in> set us"
      "ua_unit_id ua = uid" "ua_personnel_id ua = pid" "personnel_id p = pid"
      "unit_id u = ua_unit_id ua" "on_shift_now now ua"
      by blast
    from j(2,6) have p: "pid \<in> personnel_id ` set ps" by blast
    from j(3,7) have u: "ua_unit_id ua \<in> unit_id ` set us" by force
    from j(8) have "assignment_status ua = ''ON_SHIFT''" "shift_start ua \<le> now" "now \<le> shift_end ua"
      unfolding on_shift_now_def by simp_all
    with j(1,4,5) p u show "pid \<in> ?B" by blast
  next
    assume "pid \<in> ?B"
    then obtain ua where j: "ua \<in> set uas" "ua_unit_id ua = uid" "ua_personnel_id ua = pid"
      "assignment_status ua = ''ON_SHIFT''" "shift_start ua \<le> now" "now \<le> shift_end ua"
      "pid \<in> personnel_id ` set ps" "ua_unit_id ua \<in> unit_id ` set us"
      by blast
    from j(7) obtain p where p: "p \<in> set ps" "personnel_id p = pid" by blast
    from j(8) obtain u where u: "u \<in> set us" "unit_id u = ua_unit_id ua" by force
    from j(4-6) have "on_shift_now now ua" unfolding on_shift_now_def by simp
    with j(1-3) p u show "pid \<in> ?A" by blast
  qed
qed

section \<open>Readiness score and understaffed flag\<close>

text \<open>
  C1. Every row that the readiness task computes carries an understaffed flag equal to
  \<open>current_staff < minimum_staff\<close>, whatever its readiness score is.
\<close>

theorem understaffed_flag_eq:
  "\<forall>r \<in> set (readiness_source now uas ps us).
     understaffed_flag r \<longleftrightarrow> current_staff r < agg_minimum_staff r"
  by (auto simp: readiness_source_def select_row_def)

theorem understaffed_flag_eq_witness:
  "\<lparr>agg_unit_id = ''U2'', agg_minimum_staff = 3, current_staff = 2, available_staff = 2,
     readiness_score = 30, missing_certifications = [''ACLS''], understaffed_flag = True\<rparr>
     \<in> set (readiness_source 100 [shift ''U2'' ''P1'' 0 200, shift ''U2'' ''P4'' 0 200] roster fleet)
   \<and> (2::int) < 3"
proof -
  let ?row = "\<lparr>agg_unit_id = ''U2'', agg_minimum_staff = 3, current_staff = 2, available_staff = 2,
     readiness_score = 30, missing_certifications = [''ACLS''], understaffed_flag = True\<rparr>"
  have mem: "?row \<in> set (readiness_source 100
      [shift ''U2'' ''P1'' 0 200, shift ''U2'' ''P4'' 0 200] roster fleet)"
    by code_simp
  with understaffed_flag_eq
  have "understaffed_flag ?row \<longleftrightarrow> current_staff ?row < agg_minimum_staff ?row"
    by blast
  with mem show ?thesis by simp
qed

text \<open>
  C3. The readiness score of every computed row is one of 30, 50, 70, 85 and 100.
\<close>

theorem readiness_score_values:
  "\<forall>r \<in> set (readiness_source now uas ps us). readiness_score r \<in> {30, 50, 70, 85, 100}"
  by (auto simp: readiness_source_def select_row_def score_case_def)

theorem readiness_score_values_witness:
  "\<lparr>agg_unit_id = ''U1'', agg_minimum_staff = 1, current_staff = 2, available_staff = 2,
     readiness_score = 85, missing_certifications = [''EMT-P''], understaffed_flag = False\<rparr>
     \<in> set (readiness_source 100 [shift ''U1'' ''P1'' 0 200, shift ''U1'' ''P3'' 0 200] roster fleet)
   \<and> (85::int) \<in> {30, 50, 70, 85, 100}"
proof -
  let ?row = "\<lparr>agg_unit_id = ''U1'', agg_minimum_staff = 1, current_staff = 2, available_staff = 2,
     readiness_score = 85, missing_certifications = [''EMT-P''], understaffed_flag = False\<rparr>"
  have mem: "?row \<in> set (readiness_source 100
      [shift ''U1'' ''P1'' 0 200, shift ''U1'' ''P3'' 0 200] roster fleet)"
    by code_simp
  with readiness_score_values have "readiness_score ?row \<in> {30, 50, 70, 85, 100}"
    by blast
  with mem show ?thesis by simp
qed




section \<open>Missing certifications\<close>

text \<open>
  C4, as the task computes it. A certification is in \<open>missing_certifications\<close> of a unit's
  row if and only if the unit requires it and the \<open>certifications\<close> array of at least one
  person currently on shift on the unit does not contain it. Expiry dates are not consulted.
\<close>

theorem missing_certifications_iff:
  "\<forall>r \<in> set (readiness_source now uas ps us). \<forall>c.
     c \<in> set (missing_certifications r) \<longleftrightarrow>
       (\<exists>ua \<in> set uas. \<exists>p \<in> set ps. \<exists>u \<in> set us.
           ua_unit_id ua = agg_unit_id r \<and> ua_personnel_id ua = personnel_id p
           \<and> ua_unit_id ua = unit_id u \<and> on_shift_now now ua
           \<and> c \<in> set (required_certifications u) \<and> c \<notin> set (certifications p))"
proof (intro ballI allI)
  fix r c
  assume "r \<in> set (readiness_source now uas ps us)"
  from source_missing_set [OF this] show "c \<in> set (missing_certifications r) \<longleftrightarrow>
       (\<exists>ua \<in> set uas. \<exists>p \<in> set ps. \<exists>u \<in> set us.
           ua_unit_id ua = agg_unit_id r \<and> ua_personnel_id ua = personnel_id p
           \<and> ua_unit_id ua = unit_id u \<and> on_shift_now now ua
           \<and> c \<in> set (required_certifications u) \<and> c \<notin> set (certifications p))"
    by simp
qed

theorem missing_certifications_iff_witness:
  "\<lparr>agg_unit_id = ''U2'', agg_minimum_staff = 3, current_staff = 2, available_staff = 2,
     readiness_score = 30, missing_certifications = [''ACLS''], understaffed_flag = True\<rparr>
     \<in> set (readiness_source 100 [shift ''U2'' ''P1'' 0 200, shift ''U2'' ''P4'' 0 200] roster fleet)
   \<and> (\<exists>ua \<in> set [shift ''U2'' ''P1'' 0 200, shift ''U2'' ''P4'' 0 200].
        \<exists>p \<in> set roster. \<exists>u \<in> set fleet.
          ua_unit_id ua = ''U2'' \<and> ua_personnel_id ua = personnel_id p
          \<and> ua_unit_id ua = unit_id u \<and> on_shift_now 100 ua
          \<and> ''ACLS'' \<in> set (required_certifications u) \<and> ''ACLS'' \<notin> set (certifications p))"
proof -
  let ?row = "\<lparr>agg_unit_id = ''U2'', agg_minimum_staff = 3, current_staff = 2, available_staff = 2,
     readiness_score = 30, missing_certifications = [''ACLS''], understaffed_flag = True\<rparr>"
  have mem: "?row \<in> set (readiness_source 100
      [shift ''U2'' ''P1'' 0 200, shift ''U2'' ''P4'' 0 200] roster fleet)"
    by code_simp
  have "''ACLS'' \<in> set (missing_certifications ?row)" by simp
  with missing_certifications_iff mem
  have "\<exists>ua \<in> set [shift ''U2'' ''P1'' 0 200, shift ''U2'' ''P4'' 0 200].
        \<exists>p \<in> set roster. \<exists>u \<in> set fleet.
          ua_unit_id ua = agg_unit_id ?row \<and> ua_personnel_id ua = personnel_id p
          \<and> ua_unit_id ua = unit_id u \<and> on_shift_now 100 ua
          \<and> ''ACLS'' \<in> set (required_certifications u) \<and> ''ACLS'' \<notin> set (certifications p)"
    by blast
  with mem show ?thesis by simp
qed

text \<open>
  Unit U1 requires EMT-P. P1 holds it with no expiry recorded, P3 holds nothing, both are on
  shift: EMT-P is reported missing.
\<close>

theorem missing_although_held_counterexample:
  "map missing_certifications
       (readiness_source 100 [shift ''U1'' ''P1'' 0 200, shift ''U1'' ''P3'' 0 200] roster fleet) =
     [[''EMT-P'']]
   \<and> map (\<lambda>ca. (ca_personnel_id ca, ca_required_certifications ca, ca_certifications ca, ca_cert_expirations ca))
       (current_assignments 100 [shift ''U1'' ''P1'' 0 200, shift ''U1'' ''P3'' 0 200] roster fleet) =
     [(''P1'', [''EMT-P''], [''EMT-P''], []), (''P3'', [''EMT-P''], [], [])]"
  by code_simp

text \<open>
  C5, as the task computes it. Putting one more assignment into the table never removes an
  entry from a unit's \<open>missing_certifications\<close>, and it adds none when the
  \<open>certifications\<close> array of the added person contains every certification that the unit
  requires.
\<close>

theorem missing_certifications_add_assignment:
  assumes "r \<in> set (readiness_source now uas ps us)"
    and "r' \<in> set (readiness_source now (ua # uas) ps us)"
    and "agg_unit_id r' = agg_unit_id r"
  shows "set (missing_certifications r) \<subseteq> set (missing_certifications r')
     \<and> ((\<forall>p \<in> set ps. \<forall>u \<in> set us.
            personnel_id p = ua_personnel_id ua \<and> unit_id u = ua_unit_id ua
            \<longrightarrow> set (required_certifications u) \<subseteq> set (certifications p))
          \<longrightarrow> missing_certifications r' = missing_certifications r)"
proof
  show sub: "set (missing_certifications r) \<subseteq> set (missing_certifications r')"
    unfolding source_missing_set [OF assms(1)] source_missing_set [OF assms(2)] assms(3)
    by auto
  show "(\<forall>p \<in> set ps. \<forall>u \<in> set us.
            personnel_id p = ua_personnel_id ua \<and> unit_id u = ua_unit_id ua
            \<longrightarrow> set (required_certifications u) \<subseteq> set (certifications p))
          \<longrightarrow> missing_certifications r' = missing_certifications r"
  proof
    assume holds: "\<forall>p \<in> set ps. \<forall>u \<in> set us.
            personnel_id p = ua_personnel_id ua \<and> unit_id u = ua_unit_id ua
            \<longrightarrow> set (required_certifications u) \<subseteq> set (certifications p)"
    have "set (missing_certifications r') \<subseteq> set (missing_certifications r)"
    proof
      fix c
      assume "c \<in> set (missing_certifications r')"
      then obtain a p u where j: "a \<in> set (ua # uas)" "p \<in> set ps" "u \<in> set us"
        "ua_unit_id a = agg_unit_id r" "ua_personnel_id a = personnel_id p"
        "ua_unit_id a = unit_id u" "on_shift_now now a"
        "c \<in> set (required_certifications u)" "c \<notin> set (certifications p)"
        unfolding source_missing_set [OF assms(2)] assms(3) by blast
      have "a \<noteq> ua"
      proof
        assume "a = ua"
        with j(2,3,5,6) holds have "set (required_certifications u) \<subseteq> set (certifications p)"
          by simp
        with j(8,9) show False by blast
      qed
      with j(1) have "a \<in> set uas" by simp
      with j(2-9) show "c \<in> set (missing_certifications r)"
        unfolding source_missing_set [OF assms(1)] by blast
    qed
    with sub have "set (missing_certifications r') = set (missing_certifications r)" by blast
    with source_missing_sorted [OF assms(1)] source_missing_sorted [OF assms(2)]
    show "missing_certifications r' = missing_certifications r"
      by (simp add: sorted_distinct_set_unique)
  qed
qed

theorem missing_certifications_add_assignment_witness:
  "\<lparr>agg_unit_id = ''U1'', agg_minimum_staff = 1, current_staff = 1, available_staff = 1,
     readiness_score = 100, missing_certifications = [], understaffed_flag = False\<rparr>
     \<in> set (readiness_source 100 [shift ''U1'' ''P1'' 0 200] roster fleet)
   \<and> \<lparr>agg_unit_id = ''U1'', agg_minimum_staff = 1, current_staff = 2, available_staff = 1,
       readiness_score = 100, missing_certifications = [], understaffed_flag = False\<rparr>
     \<in> set (readiness_source 100 [shift ''U1'' ''P2'' 0 200, shift ''U1'' ''P1'' 0 200] roster fleet)
   \<and> set (required_certifications (hd fleet)) \<subseteq> set (certifications medic_b)
   \<and> missing_certifications
       \<lparr>agg_unit_id = ''U1'', agg_minimum_staff = 1, current_staff = 2, available_staff = 1,
         readiness_score = 100, missing_certifications = [], understaffed_flag = False\<rparr> =
     missing_certifications
       \<lparr>agg_unit_id = ''U1'', agg_minimum_staff = 1, current_staff = 1, available_staff = 1,
         readiness_score = 100, missing_certifications = [], understaffed_flag = False\<rparr>"
proof -
  let ?r = "\<lparr>agg_unit_id = ''U1'', agg_minimum_staff = 1, current_staff = 1, available_staff = 1,
        readiness_score = 100, missing_certifications = [], understaffed_flag = False\<rparr>"
  let ?r' = "\<lparr>agg_unit_id = ''U1'', agg_minimum_staff = 1, current_staff = 2, available_staff = 1,
        readiness_score = 100, missing_certifications = [], understaffed_flag = False\<rparr>"
  have 1: "?r \<in> set (readiness_source 100 [shift ''U1'' ''P1'' 0 200] roster fleet)"
    by code_simp
  have 2: "?r' \<in> set (readiness_source 100
      (shift ''U1'' ''P2'' 0 200 # [shift ''U1'' ''P1'' 0 200]) roster fleet)"
    by code_simp
  have 3: "agg_unit_id ?r' = agg_unit_id ?r" by simp
  have 4: "\<forall>p \<in> set roster. \<forall>u \<in> set fleet.
            personnel_id p = ua_personnel_id (shift ''U1'' ''P2'' 0 200)
            \<and> unit_id u = ua_unit_id (shift ''U1'' ''P2'' 0 200)
            \<longrightarrow> set (required_certifications u) \<subseteq> set (certifications p)"
    by code_simp
  from missing_certifications_add_assignment [OF 1 2 3] 4
  have 5: "missing_certifications ?r' = missing_certifications ?r" by blast
  have 6: "set (required_certifications (hd fleet)) \<subseteq> set (certifications medic_b)"
    by (simp add: fleet_def medic_b_def)
  from 1 2 5 6 show ?thesis by blast
qed

text \<open>
  Unit U2 requires ACLS and EMT-P. With P4 alone on shift nothing is missing. P1, who holds
  EMT-P with no expiry recorded, is added: ACLS is now reported missing.
\<close>

theorem added_person_adds_missing_counterexample:
  "map missing_certifications (readiness_source 100 [shift ''U2'' ''P4'' 0 200] roster fleet) = [[]]
   \<and> map missing_certifications
        (readiness_source 100 [shift ''U2'' ''P1'' 0 200, shift ''U2'' ''P4'' 0 200] roster fleet) =
      [[''ACLS'']]
   \<and> certifications medic_a = [''EMT-P''] \<and> cert_expirations medic_a = []
   \<and> personnel_id medic_a = ''P1''"
  by code_simp

section \<open>Current staffing\<close>

text \<open>
  C6, as the task computes it. The current staff of a unit counts the distinct persons with
  an assignment to the unit whose status is ON\_SHIFT and whose closed window
  \<open>[shift_start, shift_end]\<close> contains the reference time, the person and the unit being
  rows of their tables. An assignment that ends exactly at the reference time counts.
\<close>

theorem current_staff_counts:
  "\<forall>r \<in> set (readiness_source now uas ps us).
     current_staff r = int (card
       {pid. \<exists>ua \<in> set uas.
          ua_unit_id ua = agg_unit_id r \<and> ua_personnel_id ua = pid
          \<and> assignment_status ua = ''ON_SHIFT'' \<and> shift_start ua \<le> now \<and> now \<le> shift_end ua
          \<and> pid \<in> personnel_id ` set ps \<and> ua_unit_id ua \<in> unit_id ` set us})"
proof
  fix r
  assume mem: "r \<in> set (readiness_source now uas ps us)"
  from source_current_staff [OF mem] counted_set_eq [of uas ps us "agg_unit_id r" now] show "current_staff r = int (card
       {pid. \<exists>ua \<in> set uas.
          ua_unit_id ua = agg_unit_id r \<and> ua_personnel_id ua = pid
          \<and> assignment_status ua = ''ON_SHIFT'' \<and> shift_start ua \<le> now \<and> now \<le> shift_end ua
          \<and> pid \<in> personnel_id ` set ps \<and> ua_unit_id ua \<in> unit_id ` set us})"
    by simp
qed

theorem current_staff_counts_witness:
  "\<lparr>agg_unit_id = ''U1'', agg_minimum_staff = 1, current_staff = 1, available_staff = 1,
     readiness_score = 85, missing_certifications = [''EMT-P''], understaffed_flag = False\<rparr>
     \<in> set (readiness_source 100 [shift ''U1'' ''P3'' 0 100] roster fleet)
   \<and> int (card
       {pid. \<exists>ua \<in> set [shift ''U1'' ''P3'' 0 100].
          ua_unit_id ua = ''U1'' \<and> ua_personnel_id ua = pid
          \<and> assignment_status ua = ''ON_SHIFT'' \<and> shift_start ua \<le> 100 \<and> 100 \<le> shift_end ua
          \<and> pid \<in> personnel_id ` set roster \<and> ua_unit_id ua \<in> unit_id ` set fleet}) = 1"
proof -
  let ?row = "\<lparr>agg_unit_id = ''U1'', agg_minimum_staff = 1, current_staff = 1, available_staff = 1,
     readiness_score = 85, missing_certifications = [''EMT-P''], understaffed_flag = False\<rparr>"
  have mem: "?row \<in> set (readiness_source 100 [shift ''U1'' ''P3'' 0 100] roster fleet)"
    by code_simp
  with current_staff_counts
  have "current_staff ?row = int (card
       {pid. \<exists>ua \<in> set [shift ''U1'' ''P3'' 0 100].
          ua_unit_id ua = agg_unit_id ?row \<and> ua_personnel_id ua = pid
          \<and> assignment_status ua = ''ON_SHIFT'' \<and> shift_start ua \<le> 100 \<and> 100 \<le> shift_end ua
          \<and> pid \<in> personnel_id ` set roster \<and> ua_unit_id ua \<in> unit_id ` set fleet})"
    by blast
  with mem show ?thesis by simp
qed

text \<open>
  The only assignment to U1 is ON\_SHIFT and ends at 100, the reference time: the unit's
  current staff is one.
\<close>

theorem shift_end_now_counts_counterexample:
  "shift_end (shift ''U1'' ''P3'' 0 100) = 100
   \<and> assignment_status (shift ''U1'' ''P3'' 0 100) = ''ON_SHIFT''
   \<and> map current_staff (readiness_source 100 [shift ''U1'' ''P3'' 0 100] roster fleet) = [1]"
  by code_simp


section \<open>The certification-expiration task rewrites availability\<close>

text \<open>
  C10. The hourly task keeps every personnel row in place. A row that has at least one
  certification expiry before the current time and whose availability status is not
  IN\_TRAINING gets the status IN\_TRAINING and the current time as \<open>updated_at\<close>; every
  other row is unchanged. After the task, every person with an expiry before the current
  time is IN\_TRAINING, so none of them is AVAILABLE.
\<close>

theorem expiration_task_effect:
  "length (process_certification_expirations now ps) = length ps
   \<and> (\<forall>i < length ps.
        process_certification_expirations now ps ! i =
          (if (\<exists>e \<in> set (cert_expirations (ps ! i)). snd e < now)
              \<and> availability_status (ps ! i) \<noteq> ''IN_TRAINING''
           then (ps ! i)\<lparr>availability_status := ''IN_TRAINING'', updated_at := now\<rparr>
           else ps ! i))
   \<and> (\<forall>p \<in> set (process_certification_expirations now ps).
        (\<exists>e \<in> set (cert_expirations p). snd e < now) \<longrightarrow> availability_status p = ''IN_TRAINING'')"
proof (intro conjI allI impI ballI)
  show "length (process_certification_expirations now ps) = length ps"
    by (simp add: process_certification_expirations_def)
next
  fix i assume "i < length ps"
  then show "process_certification_expirations now ps ! i =
          (if (\<exists>e \<in> set (cert_expirations (ps ! i)). snd e < now)
              \<and> availability_status (ps ! i) \<noteq> ''IN_TRAINING''
           then (ps ! i)\<lparr>availability_status := ''IN_TRAINING'', updated_at := now\<rparr>
           else ps ! i)"
    by (auto simp: process_certification_expirations_def expiration_where_def)
next
  fix p assume p: "p \<in> set (process_certification_expirations now ps)"
    and e: "\<exists>e \<in> set (cert_expirations p). snd e < now"
  from p obtain q where q: "q \<in> set ps"
    and pq: "p = (if expiration_where now q
               then q\<lparr>availability_status := ''IN_TRAINING'', updated_at := now\<rparr> else q)"
    unfolding process_certification_expirations_def by auto
  show "availability_status p = ''IN_TRAINING''"
  proof (cases "expiration_where now q")
    case True
    with pq show ?thesis by simp
  next
    case False
    with pq have "p = q" by simp
    with False e show ?thesis unfolding expiration_where_def by blast
  qed
qed

theorem expiration_task_effect_witness:
  "(3::nat) < length roster
   \<and> (\<exists>e \<in> set (cert_expirations (roster ! 3)). snd e < 600)
   \<and> availability_status (roster ! 3) = ''AVAILABLE''
   \<and> process_certification_expirations 600 roster ! 3 =
       (roster ! 3)\<lparr>availability_status := ''IN_TRAINING'', updated_at := 600\<rparr>
   \<and> process_certification_expirations 600 roster ! 0 = roster ! 0"
proof -
  have l3: "(3::nat) < length roster" and l0: "(0::nat) < length roster"
    by (simp_all add: roster_def)
  have e3: "\<exists>e \<in> set (cert_expirations (roster ! 3)). snd e < 600"
    and a3: "availability_status (roster ! 3) = ''AVAILABLE''"
    and e0: "\<not> (\<exists>e \<in> set (cert_expirations (roster ! 0)). snd e < 600)"
    by (simp_all add: roster_def paramedic_def medic_a_def)
  from expiration_task_effect [of 600 roster] l3 l0
  have "process_certification_expirations 600 roster ! 3 =
          (if (\<exists>e \<in> set (cert_expirations (roster ! 3)). snd e < 600)
              \<and> availability_status (roster ! 3) \<noteq> ''IN_TRAINING''
           then (roster ! 3)\<lparr>availability_status := ''IN_TRAINING'', updated_at := 600\<rparr>
           else roster ! 3)"
    and "process_certification_expirations 600 roster ! 0 =
          (if (\<exists>e \<in> set (cert_expirations (roster ! 0)). snd e < 600)
              \<and> availability_status (roster ! 0) \<noteq> ''IN_TRAINING''
           then (roster ! 0)\<lparr>availability_status := ''IN_TRAINING'', updated_at := 600\<rparr>
           else roster ! 0)"
    by blast+
  with l3 e3 a3 e0 show ?thesis by simp
qed

section \<open>Change alerts\<close>









section \<open>Live connections\<close>

text \<open>A unit whose registered socket is OPEN is skipped: nothing is created or changed.\<close>

lemma connect_unit_open:
  assumes "map_of (wsConnections st) uid = Some ws" and "ready_state_of (sockets st) ws = Some OPEN"
  shows "connect_unit uid st = st"
  using assms by (simp add: connect_unit_def)

text \<open>
  C8. At most one OPEN or CONNECTING channel exists per unit, and a request for a unit that
  already has one creates no second channel. The effect does not keep this: run from the
  empty registry on a unit list that names U1 twice, it creates two sockets for U1, both
  CONNECTING, and the registry keeps only the second.
\<close>

theorem second_channel_while_connecting:
  "connect_effect [''U1'', ''U1''] no_connections =
     \<lparr>sockets = [\<lparr>ws_unit_id = ''U1'', readyState = CONNECTING\<rparr>,
                 \<lparr>ws_unit_id = ''U1'', readyState = CONNECTING\<rparr>],
      wsConnections = [(''U1'', 1)], wsConnected = {}\<rparr>
   \<and> live_channels ''U1'' (connect_effect [''U1'', ''U1''] no_connections) = [0, 1]"
  by code_simp

text \<open>
  The socket of U1 has failed. Its error handler and then its close handler run: U1 leaves
  the live set and the registry, U2 keeps its entry, and no socket is touched.
\<close>

lemma error_then_close_removes_entry:
  "on_close ''U1'' (on_error ''U1'' u1_failed) =
     \<lparr>sockets = [\<lparr>ws_unit_id = ''U1'', readyState = CLOSED\<rparr>, \<lparr>ws_unit_id = ''U2'', readyState = OPEN\<rparr>],
      wsConnections = [(''U2'', 1)], wsConnected = {''U2''}\<rparr>"
  by code_simp

text \<open>
  The cleanup function that the effect returns runs before the effect runs again. It leaves
  the registry empty, so the loop over units that no longer exist finds nothing to close.
\<close>

lemma close_stale_after_cleanup:
  "wsConnections (effect_cleanup st) = []
   \<and> close_stale unit_ids (effect_cleanup st) = effect_cleanup st"
  by (simp add: effect_cleanup_def close_stale_def)

text \<open>
  C9. When a unit disappears from the known units, its channel is closed and its entry
  removed, and the other units' subscriptions are not affected. The page does not keep the
  last part. U1 and U2 are live on OPEN sockets and the unit list shrinks to U1: the cleanup
  function closes both sockets and empties the registry, and the effect then creates a new
  socket for U1. The socket of U1, a unit that is still known, goes from OPEN to CLOSING and
  its subscription starts again on a third socket.
\<close>

theorem vanished_unit_recreates_other_channels:
  "connect_effect [''U1''] (effect_cleanup two_units_live) =
     \<lparr>sockets = [\<lparr>ws_unit_id = ''U1'', readyState = CLOSING\<rparr>,
                 \<lparr>ws_unit_id = ''U2'', readyState = CLOSING\<rparr>,
                 \<lparr>ws_unit_id = ''U1'', readyState = CONNECTING\<rparr>],
      wsConnections = [(''U1'', 2)], wsConnected = {''U1'', ''U2''}\<rparr>
   \<and> map_of (wsConnections two_units_live) ''U1'' = Some 0
   \<and> ready_state_of (sockets two_units_live) 0 = Some OPEN
   \<and> ready_state_of (sockets (connect_effect [''U1''] (effect_cleanup two_units_live))) 0
       = Some CLOSING"
  by code_simp

end
